theory Spec2Isabelle
  imports Main
begin

section \<open>Data model (app/models)\<close>

text \<open>
  The tables of the booking backend, one record per mapped class and one list per table.
  Only the columns read or written by the booking, cancellation and payment paths are
  kept. Python integers are unbounded and become \<open>int\<close>. A \<open>DECIMAL(10, 2)\<close> column is
  represented by its number of hundredths, so a fare times a passenger count is an exact
  integer product; the ten-digit range of the column is not modelled. A \<open>Date\<close> is its
  proleptic Gregorian day ordinal, from 1 (0001-01-01) to 3652059 (9999-12-31); date
  arithmetic that leaves this range raises \<open>OverflowError\<close> (see \<open>plus_days\<close>).
  An \<open>Integer\<close> column is an \<open>int\<close> as well; its machine range is not modelled.
  Columns named \<open>id\<close>, \<open>user_id\<close>, \<open>status\<close>, ... occur in several classes; a record field
  carries the class as a prefix where the bare name would clash, and the primary key
  \<open>id\<close> of a class is its \<open>..._pk\<close>. \<open>PaymentStatus.completed\<close> is \<open>payment_completed\<close>,
  beside \<open>BookingStatus.completed\<close>.
\<close>

type_synonym decimal = int
type_synonym date = int

datatype BookingStatus = confirmed | cancelled | completed

datatype Gender = male | female | other

datatype RefundStatus = PENDING | APPROVED | REJECTED

datatype PaymentMethod = CREDIT_CARD | DEBIT_CARD | WALLET | UPI

datatype PaymentStatus = pending | processing | payment_completed | failed | refunded

record Train =
  train_pk :: int
  total_seats :: int

record Route =
  route_pk :: int
  route_train_id :: int
  distance_km :: int
  base_fare :: decimal

record TrainSchedule =
  schedule_pk :: int
  schedule_route_id :: int
  schedule_date :: date
  available_seats :: int

record Booking =
  booking_pk :: int
  booking_user_id :: int
  booking_schedule_id :: int
  booking_reference :: string
  passenger_count :: int
  total_amount :: decimal
  booking_status :: BookingStatus
  journey_date_from :: date
  journey_date_to :: date

record Passenger =
  passenger_pk :: int
  passenger_booking_id :: int
  passenger_name :: string
  passenger_age :: int
  passenger_gender :: Gender

record RefundRequest =
  refund_pk :: int
  refund_booking_id :: int
  refund_user_id :: int
  refund_amount :: decimal
  refund_status :: RefundStatus

record Wallet =
  wallet_pk :: int
  wallet_user_id :: int
  wallet_balance :: decimal

record CreditCard =
  card_pk :: int
  card_user_id :: int
  card_balance :: decimal
  card_is_active :: bool

record UpiId =
  upi_pk :: int
  upi_user_id :: int
  upi_balance :: decimal
  upi_is_active :: bool

text \<open>
  \<open>WalletTransaction\<close>, \<open>CardTransaction\<close> and \<open>UpiTransaction\<close> have the same columns;
  \<open>account_id\<close> stands for \<open>wallet_id\<close>, \<open>card_id\<close> and \<open>upi_id\<close>.
\<close>

record Transaction =
  account_id :: int
  transaction_type :: string
  transaction_amount :: decimal
  description :: string
  reference_id :: string

record Payment =
  payment_pk :: int
  payment_booking_id :: int
  payment_user_id :: int
  payment_amount :: decimal
  payment_method :: PaymentMethod
  payment_status :: PaymentStatus
  transaction_id :: string

record database =
  trains :: "Train list"
  routes :: "Route list"
  train_schedules :: "TrainSchedule list"
  bookings :: "Booking list"
  passengers :: "Passenger list"
  refund_requests :: "RefundRequest list"
  wallets :: "Wallet list"
  credit_cards :: "CreditCard list"
  upi_ids :: "UpiId list"
  wallet_transactions :: "Transaction list"
  card_transactions :: "Transaction list"
  upi_transactions :: "Transaction list"
  payments :: "Payment list"

subsection \<open>Request schemas (app/schemas)\<close>

record PassengerCreate =
  name :: string
  age :: int
  gender :: Gender

record BookingCreate =
  schedule_id :: int
  passengers_of :: "PassengerCreate list"

text \<open>
  \<open>chosen_method\<close> is the \<open>payment_method\<close> of a \<open>PaymentCreate\<close>, and
  \<open>passengers_of\<close> the \<open>passengers\<close> of a \<open>BookingCreate\<close>: the bare names are
  columns of \<open>Payment\<close> and a table of the database.
\<close>

record PaymentCreate =
  booking_id :: int
  chosen_method :: PaymentMethod
  card_id :: "int option"
  upi_id :: "int option"

section \<open>The storage session\<close>

text \<open>
  A SQLAlchemy session is a pair: \<open>stored\<close> is what the database durably holds, \<open>work\<close>
  is what the open transaction sees (the rows it has loaded, changed, added and flushed).
  \<open>commit\<close> makes \<open>work\<close> durable or fails and leaves \<open>stored\<close> as it was; \<open>rollback\<close>
  throws \<open>work\<close> away. Whether the store accepts a commit is an input of the model
  (\<open>commit_ok\<close>), and so is every random value the code draws (booking reference,
  transaction id).
\<close>

record Session =
  stored :: database
  work :: database

datatype exn =
    ValueError string
  | AttributeError string
  | IntegrityError string
  | OperationalError string
  | OverflowError string
  | HTTPException int string
  | NotFoundError string int
  | InsufficientSeatsError int int

definition commit :: "Session \<Rightarrow> bool \<Rightarrow> exn + Session" where
  "commit sess commit_ok =
     (if commit_ok then Inr (sess\<lparr>stored := work sess\<rparr>)
      else Inl (OperationalError ''commit failed''))"

definition rollback :: "Session \<Rightarrow> Session" where
  "rollback sess = sess\<lparr>work := stored sess\<rparr>"

text \<open>The next value of an autoincrement primary key: above every key in the table.\<close>

primrec max_pk :: "int list \<Rightarrow> int" where
  "max_pk [] = 0"
| "max_pk (k # ks) = max k (max_pk ks)"

definition next_pk :: "int list \<Rightarrow> int" where
  "next_pk ks = max_pk ks + 1"

text \<open>\<open>UPDATE table SET ... WHERE p\<close>, as the unit of work emits it for a changed row.\<close>

definition update_where :: "('a \<Rightarrow> bool) \<Rightarrow> ('a \<Rightarrow> 'a) \<Rightarrow> 'a list \<Rightarrow> 'a list" where
  "update_where p f rows = map (\<lambda>r. if p r then f r else r) rows"

section \<open>Dates (datetime)\<close>

text \<open>
  \<open>timedelta(days=d)\<close> raises \<open>OverflowError\<close> when \<open>d\<close> has a magnitude above
  999999999. \<open>date + timedelta\<close> adds the days to the ordinal of the date and raises
  \<open>OverflowError\<close> unless the result is an ordinal from 1 to 3652059.
  \<open>plus_days d n\<close> is \<open>d + timedelta(days=n)\<close>.
\<close>

definition timedelta :: "int \<Rightarrow> exn + int" where
  "timedelta days =
     (if 999999999 < \<bar>days\<bar>
      then Inl (OverflowError ''days must have magnitude <= 999999999'')
      else Inr days)"

definition date_add :: "date \<Rightarrow> int \<Rightarrow> exn + date" where
  "date_add d delta =
     (if 0 < d + delta \<and> d + delta \<le> 3652059 then Inr (d + delta)
      else Inl (OverflowError ''date value out of range''))"

definition plus_days :: "date \<Rightarrow> int \<Rightarrow> exn + date" where
  "plus_days d n = (case timedelta n of Inl e \<Rightarrow> Inl e | Inr delta \<Rightarrow> date_add d delta)"

section \<open>BookingService (app/services)\<close>

text \<open>
  \<open>db.add(passenger)\<close> for each passenger of the request, in order; the primary keys are
  given when the rows are flushed.
\<close>

fun add_passengers :: "Passenger list \<Rightarrow> int \<Rightarrow> PassengerCreate list \<Rightarrow> Passenger list" where
  "add_passengers rows bid [] = rows"
| "add_passengers rows bid (passenger_data # rest) =
     add_passengers
       (rows @ [\<lparr>passenger_pk = next_pk (map passenger_pk rows), passenger_booking_id = bid,
                 passenger_name = name passenger_data, passenger_age = age passenger_data,
                 passenger_gender = gender passenger_data\<rparr>])
       bid rest"

text \<open>
  \<open>BookingService.create_booking\<close>. \<open>ref\<close> is the value \<open>generate_booking_reference\<close>
  draws. \<open>journey_date_from + timedelta(days=days - 1)\<close> raises \<open>OverflowError\<close> when
  the journey would end after 9999-12-31. The flush of the new booking assigns its primary
  key and its default status \<open>confirmed\<close>, and fails on the unique constraint of
  \<open>booking_reference\<close>. The result
  is the raised exception or the returned booking, with the session as the call leaves it.
\<close>

definition create_booking ::
  "Session \<Rightarrow> BookingCreate \<Rightarrow> int \<Rightarrow> string \<Rightarrow> bool \<Rightarrow> (exn + Booking) \<times> Session" where
  "create_booking sess booking user_id ref commit_ok =
     (let db = work sess; n = int (length (passengers_of booking)) in
      case find (\<lambda>s. schedule_pk s = schedule_id booking) (train_schedules db) of
        None \<Rightarrow> (Inl (ValueError ''Insufficient seats available''), sess)
      | Some schedule \<Rightarrow>
          if available_seats schedule < n
          then (Inl (ValueError ''Insufficient seats available''), sess)
          else
            (case find (\<lambda>r. route_pk r = schedule_route_id schedule) (routes db) of
               None \<Rightarrow> (Inl (AttributeError ''base_fare''), sess)
             | Some route \<Rightarrow>
                 let total = base_fare route * n;
                     date_from = schedule_date schedule;
                     days = max 1 ((distance_km route + 499) div 500)
                 in
                 (case plus_days date_from (days - 1) of
                    Inl e \<Rightarrow> (Inl e, sess)
                  | Inr date_to \<Rightarrow>
                      if ref \<in> set (map booking_reference (bookings db))
                      then (Inl (IntegrityError ''booking_reference''), sess)
                      else
                        let db_booking =
                              \<lparr>booking_pk = next_pk (map booking_pk (bookings db)),
                               booking_user_id = user_id,
                               booking_schedule_id = schedule_id booking,
                               booking_reference = ref,
                               passenger_count = n,
                               total_amount = total,
                               booking_status = confirmed,
                               journey_date_from = date_from,
                               journey_date_to = date_to\<rparr>;
                            db1 = db\<lparr>bookings := bookings db @ [db_booking]\<rparr>;
                            db2 = db1\<lparr>passengers :=
                                    add_passengers (passengers db1) (booking_pk db_booking)
                                      (passengers_of booking)\<rparr>;
                            db3 = db2\<lparr>train_schedules :=
                                    update_where (\<lambda>s. schedule_pk s = schedule_pk schedule)
                                      (\<lambda>s. s\<lparr>available_seats :=
                                               available_seats schedule - n\<rparr>)
                                      (train_schedules db2)\<rparr>;
                            sess3 = sess\<lparr>work := db3\<rparr>
                        in
                        (case commit sess3 commit_ok of
                           Inl e \<Rightarrow> (Inl e, sess3)
                         | Inr sess4 \<Rightarrow> (Inr db_booking, sess4)))))"

text \<open>
  \<open>BookingService.cancel_booking_with_refund\<close>. The returned dictionary is represented
  by its \<open>refund_amount\<close>, the booking's \<open>total_amount\<close> (the conversion to a float for
  the response is left out).
\<close>

definition cancel_booking_with_refund ::
  "Session \<Rightarrow> int \<Rightarrow> int \<Rightarrow> bool \<Rightarrow> (exn + decimal) \<times> Session" where
  "cancel_booking_with_refund sess bid user_id commit_ok =
     (let db = work sess in
      case find (\<lambda>b. booking_pk b = bid \<and> booking_user_id b = user_id) (bookings db) of
        None \<Rightarrow> (Inl (ValueError ''Booking not found''), sess)
      | Some booking \<Rightarrow>
          if booking_status booking \<noteq> confirmed
          then (Inl (ValueError ''Only confirmed bookings can be cancelled''), sess)
          else
            let db1 = db\<lparr>bookings :=
                        update_where (\<lambda>b. booking_pk b = booking_pk booking)
                          (\<lambda>b. b\<lparr>booking_status := cancelled\<rparr>) (bookings db)\<rparr>;
                sess1 = sess\<lparr>work := db1\<rparr>
            in
            (case find (\<lambda>s. schedule_pk s = booking_schedule_id booking) (train_schedules db1) of
               None \<Rightarrow> (Inl (AttributeError ''available_seats''), sess1)
             | Some schedule \<Rightarrow>
                 let db2 = db1\<lparr>train_schedules :=
                             update_where (\<lambda>s. schedule_pk s = schedule_pk schedule)
                               (\<lambda>s. s\<lparr>available_seats :=
                                        available_seats schedule + passenger_count booking\<rparr>)
                               (train_schedules db1)\<rparr>;
                     refund_request =
                       \<lparr>refund_pk = next_pk (map refund_pk (refund_requests db2)),
                        refund_booking_id = bid,
                        refund_user_id = user_id,
                        refund_amount = total_amount booking,
                        refund_status = PENDING\<rparr>;
                     db3 = db2\<lparr>refund_requests := refund_requests db2 @ [refund_request]\<rparr>;
                     sess3 = sess\<lparr>work := db3\<rparr>
                 in
                 (case commit sess3 commit_ok of
                    Inl e \<Rightarrow> (Inl e, sess3)
                  | Inr sess4 \<Rightarrow> (Inr (total_amount booking), sess4))))"

section \<open>Route handlers (app/api/bookings.py) and the session dependency\<close>

text \<open>
  The handler of \<open>POST /bookings/\<close>: a \<open>ValueError\<close> becomes a 400 response; any other
  exception rolls the session back and becomes a 500 response.
\<close>

definition api_create_booking ::
  "Session \<Rightarrow> BookingCreate \<Rightarrow> int \<Rightarrow> string \<Rightarrow> bool \<Rightarrow> (exn + Booking) \<times> Session" where
  "api_create_booking sess booking user_id ref commit_ok =
     (case create_booking sess booking user_id ref commit_ok of
        (Inr b, s) \<Rightarrow> (Inr b, s)
      | (Inl (ValueError msg), s) \<Rightarrow> (Inl (HTTPException 400 msg), s)
      | (Inl e, s) \<Rightarrow>
          (Inl (HTTPException 500 ''Booking failed. Please try again.''), rollback s))"

text \<open>
  The handler of \<open>PUT /bookings/{booking_id}/cancel\<close> catches \<open>ValueError\<close> only; any
  other exception leaves the handler as it is.
\<close>

definition api_cancel_booking_with_refund ::
  "Session \<Rightarrow> int \<Rightarrow> int \<Rightarrow> bool \<Rightarrow> (exn + decimal) \<times> Session" where
  "api_cancel_booking_with_refund sess bid user_id commit_ok =
     (case cancel_booking_with_refund sess bid user_id commit_ok of
        (Inr a, s) \<Rightarrow> (Inr a, s)
      | (Inl (ValueError msg), s) \<Rightarrow> (Inl (HTTPException 400 msg), s)
      | (Inl e, s) \<Rightarrow> (Inl e, s))"

text \<open>
  \<open>get_db\<close>: every request runs in a session of its own, opened on the durable state;
  on an exception the session is rolled back, and it is closed in any case, so what
  the request leaves behind is \<open>stored\<close>.
\<close>

definition get_db :: "database \<Rightarrow> (Session \<Rightarrow> 'r \<times> Session) \<Rightarrow> 'r \<times> database" where
  "get_db db handler =
     (case handler \<lparr>stored = db, work = db\<rparr> of (r, s) \<Rightarrow> (r, stored s))"

section \<open>RouteService (app/services)\<close>

text \<open>
  \<open>RouteService.create_schedules_for_route\<close>. \<open>today\<close> is \<open>date.today()\<close>. Round \<open>i\<close> of
  the loop takes the day \<open>today + timedelta(days=i)\<close>, looks it up among the stored
  schedules (the session does not autoflush, so rows added in earlier rounds are not
  seen) and adds a schedule for a day that has none, with
  \<open>available_seats = route.train.total_seats\<close>; \<open>seats\<close> is that number, or \<open>None\<close>
  when the route has no train to read it from. The commit after the loop flushes the
  added rows, which gives them their primary keys in order.
\<close>

fun schedule_loop ::
  "TrainSchedule list \<Rightarrow> int \<Rightarrow> int option \<Rightarrow> date \<Rightarrow> TrainSchedule list \<Rightarrow> nat list \<Rightarrow>
   exn + TrainSchedule list" where
  "schedule_loop existing rid seats today added [] = Inr added"
| "schedule_loop existing rid seats today added (i # rest) =
     (case plus_days today (int i) of
        Inl e \<Rightarrow> Inl e
      | Inr day \<Rightarrow>
          (case find (\<lambda>s. schedule_route_id s = rid \<and> schedule_date s = day) existing of
             Some existing_schedule \<Rightarrow> schedule_loop existing rid seats today added rest
           | None \<Rightarrow>
               (case seats of
                  None \<Rightarrow> Inl (AttributeError ''total_seats'')
                | Some n \<Rightarrow>
                    schedule_loop existing rid seats today
                      (added @
                       [\<lparr>schedule_pk = next_pk (map schedule_pk (existing @ added)),
                         schedule_route_id = rid,
                         schedule_date = day,
                         available_seats = n\<rparr>])
                      rest)))"

definition create_schedules_for_route ::
  "Session \<Rightarrow> int \<Rightarrow> date \<Rightarrow> nat \<Rightarrow> bool \<Rightarrow> (exn + unit) \<times> Session" where
  "create_schedules_for_route sess rid today days_ahead commit_ok =
     (let db = work sess in
      case find (\<lambda>r. route_pk r = rid) (routes db) of
        None \<Rightarrow> (Inr (), sess)
      | Some route \<Rightarrow>
          (case schedule_loop (train_schedules db) rid
                  (map_option total_seats
                     (find (\<lambda>t. train_pk t = route_train_id route) (trains db)))
                  today [] [0..<days_ahead] of
             Inl e \<Rightarrow> (Inl e, sess)
           | Inr added \<Rightarrow>
               let sess1 = sess\<lparr>work := db\<lparr>train_schedules := train_schedules db @ added\<rparr>\<rparr> in
               (case commit sess1 commit_ok of
                  Inl e \<Rightarrow> (Inl e, sess1)
                | Inr sess2 \<Rightarrow> (Inr (), sess2))))"

text \<open>
  The rows the loop has added so far all start with the seats of the train and have keys
  of their own.
\<close>

definition starts_full :: "int option \<Rightarrow> TrainSchedule list \<Rightarrow> TrainSchedule list \<Rightarrow> bool" where
  "starts_full seats existing added \<longleftrightarrow>
     (\<forall>s \<in> set added. Some (available_seats s) = seats \<and> schedule_pk s \<notin> schedule_pk ` set existing)"

section \<open>Sequences of requests\<close>

text \<open>
  A request is a reserve (\<open>POST /bookings/\<close>) or a release
  (\<open>PUT /bookings/{booking_id}/cancel\<close>), with the inputs the environment supplies: the
  drawn booking reference and whether the store accepts the commit. \<open>handle\<close> is the
  durable state one request leaves; \<open>run\<close> serves a list of requests one after the other.
\<close>

datatype request =
    Reserve BookingCreate int string bool
  | Release int int bool

fun handle :: "database \<Rightarrow> request \<Rightarrow> database" where
  "handle db (Reserve booking user_id ref commit_ok) =
     snd (get_db db (\<lambda>s. api_create_booking s booking user_id ref commit_ok))"
| "handle db (Release bid user_id commit_ok) =
     snd (get_db db (\<lambda>s. api_cancel_booking_with_refund s bid user_id commit_ok))"

definition run :: "database \<Rightarrow> request list \<Rightarrow> database" where
  "run db reqs = foldl handle db reqs"

text \<open>The seats held by the confirmed bookings of one schedule.\<close>

definition confirmed_seats :: "Booking list \<Rightarrow> int \<Rightarrow> int" where
  "confirmed_seats bs sid =
     sum_list (map passenger_count
       (filter (\<lambda>b. booking_schedule_id b = sid \<and> booking_status b = confirmed) bs))"

text \<open>
  The two invariants of a schedule \<open>sid\<close> of capacity \<open>cap\<close>: the seats are conserved
  (with the primary key of \<open>bookings\<close> unique), and no count is negative.
\<close>

definition seats_conserved :: "int \<Rightarrow> int \<Rightarrow> database \<Rightarrow> bool" where
  "seats_conserved cap sid db \<longleftrightarrow>
     distinct (map booking_pk (bookings db)) \<and>
     (\<exists>s. find (\<lambda>s. schedule_pk s = sid) (train_schedules db) = Some s \<and>
          available_seats s + confirmed_seats (bookings db) sid = cap)"

definition seats_nonneg :: "int \<Rightarrow> database \<Rightarrow> bool" where
  "seats_nonneg sid db \<longleftrightarrow>
     (\<forall>b \<in> set (bookings db). booking_schedule_id b = sid \<longrightarrow> 0 \<le> passenger_count b) \<and>
     (\<exists>s. find (\<lambda>s. schedule_pk s = sid) (train_schedules db) = Some s \<and> 0 \<le> available_seats s)"

section \<open>Typed errors (app/core/exceptions.py) and the locked reserve path\<close>

text \<open>Python's \<open>str\<close> of an integer, as the f-strings of the error details use it.\<close>

fun digits :: "nat \<Rightarrow> string" where
  "digits n =
     (if n < 10 then [''0123456789'' ! n]
      else digits (n div 10) @ [''0123456789'' ! (n mod 10)])"

declare digits.simps [simp del]

definition str :: "int \<Rightarrow> string" where
  "str i = (if i < 0 then CHR ''-'' # digits (nat (- i)) else digits (nat i))"

text \<open>
  \<open>status_code\<close> and \<open>detail\<close> as the constructors of \<open>NotFoundError\<close> and
  \<open>InsufficientSeatsError\<close> pass them to \<open>HTTPException\<close>.
\<close>

fun status_code :: "exn \<Rightarrow> int option" where
  "status_code (HTTPException code msg) = Some code"
| "status_code (NotFoundError resource identifier) = Some 404"
| "status_code (InsufficientSeatsError available requested) = Some 409"
| "status_code e = None"

fun detail :: "exn \<Rightarrow> string" where
  "detail (HTTPException code msg) = msg"
| "detail (NotFoundError resource identifier) =
     (if identifier \<noteq> 0
      then resource @ '' not found'' @ '' with identifier: '' @ str identifier
      else resource @ '' not found'')"
| "detail (InsufficientSeatsError available requested) =
     ''Insufficient seats. Available: '' @ str available @ '', Requested: '' @ str requested"
| "detail (ValueError msg) = msg"
| "detail e = []"

text \<open>
  \<open>BookingRepository.create_booking_with_seat_lock\<close>, lines 31 to 52: the schedule row
  is read under \<open>with_for_update\<close> and the two guards run. What follows in the function
  builds a \<open>Booking\<close> of \<open>app.models.booking\<close>, a module that is not among the sources,
  and is not modelled. An exception leaves the \<open>async with db.begin()\<close> block, which
  rolls the transaction back.
\<close>

definition create_booking_with_seat_lock_guard ::
  "Session \<Rightarrow> BookingCreate \<Rightarrow> (exn + TrainSchedule) \<times> Session" where
  "create_booking_with_seat_lock_guard sess booking_data =
     (case find (\<lambda>s. schedule_pk s = schedule_id booking_data) (train_schedules (work sess)) of
        None \<Rightarrow> (Inl (NotFoundError ''TrainSchedule'' (schedule_id booking_data)), rollback sess)
      | Some schedule \<Rightarrow>
          let passenger_count = int (length (passengers_of booking_data)) in
          if available_seats schedule < passenger_count
          then (Inl (InsufficientSeatsError (available_seats schedule) passenger_count),
                rollback sess)
          else (Inr schedule, sess))"

section \<open>Routes and payments\<close>

text \<open>
  \<open>RouteService.update_route\<close> sets every field of the route from the request, among
  them the base fare; \<open>None\<close> is returned for an unknown route.
\<close>

record RouteCreate =
  train_id :: int
  new_distance_km :: int
  new_base_fare :: decimal

definition update_route ::
  "Session \<Rightarrow> int \<Rightarrow> RouteCreate \<Rightarrow> bool \<Rightarrow> (exn + Route option) \<times> Session" where
  "update_route sess rid route_data commit_ok =
     (let db = work sess in
      case find (\<lambda>r. route_pk r = rid) (routes db) of
        None \<Rightarrow> (Inr None, sess)
      | Some db_route \<Rightarrow>
          let db_route' = db_route\<lparr>route_train_id := train_id route_data,
                                   distance_km := new_distance_km route_data,
                                   base_fare := new_base_fare route_data\<rparr>;
              sess1 = sess\<lparr>work := db\<lparr>routes :=
                         update_where (\<lambda>r. route_pk r = route_pk db_route) (\<lambda>r. db_route')
                           (routes db)\<rparr>\<rparr>
          in
          (case commit sess1 commit_ok of
             Inl e \<Rightarrow> (Inl e, sess1)
           | Inr sess2 \<Rightarrow> (Inr (Some db_route'), sess2)))"

text \<open>
  The \<open>if\<close>/\<open>elif\<close> chain of \<open>process_payment\<close> over the payment method (the source's
  \<open>card\<close> is \<open>credit_card\<close> here, \<open>card\<close> being the cardinality of HOL): the chosen
  wallet, card or UPI id is checked and debited by the booking's \<open>total_amount\<close>, and the
  debit is recorded. \<open>DEBIT_CARD\<close> has no branch of its own: nothing is debited.
\<close>

definition debit_transaction :: "int \<Rightarrow> Booking \<Rightarrow> Transaction" where
  "debit_transaction acct booking =
     \<lparr>account_id = acct,
      transaction_type = ''debit'',
      transaction_amount = total_amount booking,
      description = ''Payment for booking '' @ booking_reference booking,
      reference_id = str (booking_pk booking)\<rparr>"

definition charge :: "database \<Rightarrow> PaymentCreate \<Rightarrow> int \<Rightarrow> Booking \<Rightarrow> exn + database" where
  "charge db payment_data user_id booking =
     (case chosen_method payment_data of
        WALLET \<Rightarrow>
          (case find (\<lambda>w. wallet_user_id w = user_id) (wallets db) of
             None \<Rightarrow> Inl (HTTPException 400 ''Insufficient wallet balance'')
           | Some wallet \<Rightarrow>
               if wallet_balance wallet < total_amount booking
               then Inl (HTTPException 400 ''Insufficient wallet balance'')
               else Inr (db\<lparr>wallets :=
                              update_where (\<lambda>w. wallet_pk w = wallet_pk wallet)
                                (\<lambda>w. w\<lparr>wallet_balance :=
                                         wallet_balance wallet - total_amount booking\<rparr>)
                                (wallets db),
                            wallet_transactions :=
                              wallet_transactions db @
                              [debit_transaction (wallet_pk wallet) booking]\<rparr>))
      | CREDIT_CARD \<Rightarrow>
          (case card_id payment_data of
             None \<Rightarrow> Inl (HTTPException 400 ''Card ID required for credit card payment'')
           | Some cid \<Rightarrow>
               if cid = 0
               then Inl (HTTPException 400 ''Card ID required for credit card payment'')
               else
                 (case find (\<lambda>c. card_pk c = cid \<and> card_user_id c = user_id) (credit_cards db) of
                    None \<Rightarrow> Inl (HTTPException 404 ''Credit card not found'')
                  | Some credit_card \<Rightarrow>
                      if \<not> card_is_active credit_card
                      then Inl (HTTPException 404 ''Credit card not found'')
                      else if card_balance credit_card < total_amount booking
                      then Inl (HTTPException 400 ''Insufficient card balance'')
                      else Inr (db\<lparr>credit_cards :=
                                     update_where (\<lambda>c. card_pk c = card_pk credit_card)
                                       (\<lambda>c. c\<lparr>card_balance :=
                                                card_balance credit_card - total_amount booking\<rparr>)
                                       (credit_cards db),
                                   card_transactions :=
                                     card_transactions db @
                                     [debit_transaction (card_pk credit_card) booking]\<rparr>)))
      | UPI \<Rightarrow>
          (case upi_id payment_data of
             None \<Rightarrow> Inl (HTTPException 400 ''UPI ID required for UPI payment'')
           | Some uid \<Rightarrow>
               if uid = 0
               then Inl (HTTPException 400 ''UPI ID required for UPI payment'')
               else
                 (case find (\<lambda>u. upi_pk u = uid \<and> upi_user_id u = user_id) (upi_ids db) of
                    None \<Rightarrow> Inl (HTTPException 404 ''UPI ID not found'')
                  | Some upi \<Rightarrow>
                      if \<not> upi_is_active upi
                      then Inl (HTTPException 404 ''UPI ID not found'')
                      else if upi_balance upi < total_amount booking
                      then Inl (HTTPException 400 ''Insufficient UPI balance'')
                      else Inr (db\<lparr>upi_ids :=
                                     update_where (\<lambda>u. upi_pk u = upi_pk upi)
                                       (\<lambda>u. u\<lparr>upi_balance :=
                                                upi_balance upi - total_amount booking\<rparr>)
                                       (upi_ids db),
                                   upi_transactions :=
                                     upi_transactions db @
                                     [debit_transaction (upi_pk upi) booking]\<rparr>)))
      | DEBIT_CARD \<Rightarrow> Inr db)"

text \<open>
  \<open>process_payment\<close> (app/api/payments.py). \<open>txn\<close> is the drawn \<open>uuid4\<close>. Every
  \<open>HTTPException\<close> is raised before the session is changed.
\<close>

definition process_payment ::
  "Session \<Rightarrow> PaymentCreate \<Rightarrow> int \<Rightarrow> string \<Rightarrow> bool \<Rightarrow> (exn + Payment) \<times> Session" where
  "process_payment sess payment_data user_id txn commit_ok =
     (let db = work sess in
      case find (\<lambda>b. booking_pk b = booking_id payment_data \<and> booking_user_id b = user_id)
             (bookings db) of
        None \<Rightarrow> (Inl (HTTPException 404 ''Booking not found''), sess)
      | Some booking \<Rightarrow>
          (case find (\<lambda>p. payment_booking_id p = booking_pk booking) (payments db) of
             Some existing_payment \<Rightarrow>
               (Inl (HTTPException 400 ''Payment already processed for this booking''), sess)
           | None \<Rightarrow>
               (case charge db payment_data user_id booking of
                  Inl e \<Rightarrow> (Inl e, sess)
                | Inr db1 \<Rightarrow>
                    let payment =
                          \<lparr>payment_pk = next_pk (map payment_pk (payments db1)),
                           payment_booking_id = booking_pk booking,
                           payment_user_id = user_id,
                           payment_amount = total_amount booking,
                           payment_method = chosen_method payment_data,
                           payment_status = payment_completed,
                           transaction_id = txn\<rparr>;
                        sess2 = sess\<lparr>work := db1\<lparr>payments := payments db1 @ [payment]\<rparr>\<rparr>
                    in
                    (case commit sess2 commit_ok of
                       Inl e \<Rightarrow> (Inl e, sess2)
                     | Inr sess3 \<Rightarrow> (Inr payment, sess3)))))"

text \<open>
  The balance of the wallet, card or UPI id a payment request selects, as
  \<open>process_payment\<close> looks it up; \<open>DEBIT_CARD\<close> selects none.
\<close>

definition instrument_balance :: "database \<Rightarrow> PaymentCreate \<Rightarrow> int \<Rightarrow> decimal option" where
  "instrument_balance db payment_data user_id =
     (case chosen_method payment_data of
        WALLET \<Rightarrow> map_option wallet_balance (find (\<lambda>w. wallet_user_id w = user_id) (wallets db))
      | CREDIT_CARD \<Rightarrow>
          map_option card_balance
            (find (\<lambda>c. Some (card_pk c) = card_id payment_data \<and> card_user_id c = user_id)
               (credit_cards db))
      | UPI \<Rightarrow>
          map_option upi_balance
            (find (\<lambda>u. Some (upi_pk u) = upi_id payment_data \<and> upi_user_id u = user_id)
               (upi_ids db))
      | DEBIT_CARD \<Rightarrow> None)"

section \<open>A worked scenario\<close>

text \<open>
  One train of 50 seats on a 1200 km route at a base fare of 450.00, one schedule with
  all 50 seats free, and user 7 with a wallet of 5000.00.
\<close>

definition scenario_db :: database where
  "scenario_db =
     \<lparr>trains = [\<lparr>train_pk = 1, total_seats = 50\<rparr>],
      routes = [\<lparr>route_pk = 1, route_train_id = 1, distance_km = 1200, base_fare = 45000\<rparr>],
      train_schedules =
        [\<lparr>schedule_pk = 1, schedule_route_id = 1, schedule_date = 739000, available_seats = 50\<rparr>],
      bookings = [],
      passengers = [],
      refund_requests = [],
      wallets = [\<lparr>wallet_pk = 1, wallet_user_id = 7, wallet_balance = 500000\<rparr>],
      credit_cards = [],
      upi_ids = [],
      wallet_transactions = [],
      card_transactions = [],
      upi_transactions = [],
      payments = []\<rparr>"

definition traveller :: PassengerCreate where
  "traveller = \<lparr>name = ''A. Rao'', age = 34, gender = female\<rparr>"

definition party :: "nat \<Rightarrow> BookingCreate" where
  "party k = \<lparr>schedule_id = 1, passengers_of = replicate k traveller\<rparr>"

definition scenario_requests :: "request list" where
  "scenario_requests =
     [Reserve (party 3) 7 ''AB12CD34'' True,
      Reserve (party 50) 7 ''ZX98YW76'' True,
      Release 1 7 True,
      Release 1 7 True]"

text \<open>
  The same user books three seats, the fare of the route is then raised from 450.00 to
  600.00, and the booking is paid from the wallet.
\<close>

definition booked :: "(exn + Booking) \<times> Session" where
  "booked =
     create_booking \<lparr>stored = scenario_db, work = scenario_db\<rparr> (party 3) 7 ''AB12CD34'' True"

definition repriced :: "(exn + Route option) \<times> Session" where
  "repriced =
     update_route (snd booked) 1
       \<lparr>train_id = 1, new_distance_km = 1200, new_base_fare = 60000\<rparr> True"

definition wallet_payment :: PaymentCreate where
  "wallet_payment = \<lparr>booking_id = 1, chosen_method = WALLET, card_id = None, upi_id = None\<rparr>"

definition paid :: "(exn + Payment) \<times> Session" where
  "paid = process_payment (snd repriced) wallet_payment 7 ''c0ffee'' True"

text \<open>
  The same database with a route of 1456530001 km: from the schedule's day, 2024-04-24
  (ordinal 739000), the journey of 2913061 days would end on the day after 9999-12-31.
\<close>

definition far_db :: database where
  "far_db =
     scenario_db\<lparr>routes :=
       [\<lparr>route_pk = 1, route_train_id = 1, distance_km = 1456530001, base_fare = 45000\<rparr>]\<rparr>"

section \<open>Properties\<close>

subsection \<open>Primary keys and row updates\<close>

lemma max_pk_ge: "k \<in> set ks \<Longrightarrow> k \<le> max_pk ks"
  by (induction ks) auto

lemma next_pk_fresh: "next_pk ks \<notin> set ks"
  using max_pk_ge [of "next_pk ks" ks] by (auto simp: next_pk_def)

lemma next_pk_fresh_image: "next_pk (map pk rows) \<notin> pk ` set rows"
  using next_pk_fresh [of "map pk rows"] by simp

lemma map_pk_update_where:
  "(\<And>r. pk (f r) = pk r) \<Longrightarrow> map pk (update_where p f rows) = map pk rows"
  by (induction rows) (auto simp: update_where_def)

lemma update_where_no_match:
  "k \<notin> set (map pk rows) \<Longrightarrow> update_where (\<lambda>r. pk r = k) f rows = rows"
  by (induction rows) (auto simp: update_where_def)

lemma find_schedule_update_where:
  "find (\<lambda>s. schedule_pk s = k)
     (update_where (\<lambda>s. schedule_pk s = k') (\<lambda>s. s\<lparr>available_seats := v\<rparr>) rows) =
   (if k = k' then map_option (\<lambda>s. s\<lparr>available_seats := v\<rparr>) (find (\<lambda>s. schedule_pk s = k) rows)
    else find (\<lambda>s. schedule_pk s = k) rows)"
  by (induction rows) (auto simp: update_where_def)

lemma find_Some_pk: "find (\<lambda>s. schedule_pk s = k) rows = Some s \<Longrightarrow> schedule_pk s = k"
  by (auto simp: find_Some_iff)

lemma find_booking_Some:
  "find (\<lambda>b. booking_pk b = bid \<and> booking_user_id b = uid) bs = Some b \<Longrightarrow>
   b \<in> set bs \<and> booking_pk b = bid \<and> booking_user_id b = uid"
  by (auto simp: find_Some_iff)

subsection \<open>Seats held by confirmed bookings\<close>

lemma confirmed_seats_append:
  "confirmed_seats (bs @ [b]) sid =
   confirmed_seats bs sid +
   (if booking_schedule_id b = sid \<and> booking_status b = confirmed then passenger_count b else 0)"
  by (simp add: confirmed_seats_def)

lemma confirmed_seats_nonneg:
  "\<forall>b \<in> set bs. booking_schedule_id b = sid \<longrightarrow> 0 \<le> passenger_count b \<Longrightarrow>
   0 \<le> confirmed_seats bs sid"
  by (induction bs) (auto simp: confirmed_seats_def)

lemma confirmed_seats_fresh:
  assumes "\<forall>b \<in> set bs. booking_schedule_id b \<noteq> sid"
  shows "confirmed_seats bs sid = 0"
proof -
  from assms have
    "filter (\<lambda>b. booking_schedule_id b = sid \<and> booking_status b = confirmed) bs = []"
    by (auto simp: filter_empty_conv)
  then show ?thesis
    by (simp add: confirmed_seats_def)
qed

lemma confirmed_seats_cancel:
  assumes "distinct (map booking_pk bs)" "b \<in> set bs" "booking_status b = confirmed"
  shows "confirmed_seats (update_where (\<lambda>x. booking_pk x = booking_pk b)
            (\<lambda>x. x\<lparr>booking_status := cancelled\<rparr>) bs) sid =
         confirmed_seats bs sid - (if booking_schedule_id b = sid then passenger_count b else 0)"
  using assms
proof (induction bs)
  case Nil
  then show ?case by simp
next
  case (Cons a bs)
  show ?case
  proof (cases "a = b")
    case True
    with Cons.prems have "booking_pk b \<notin> set (map booking_pk bs)" by simp
    then have "update_where (\<lambda>x. booking_pk x = booking_pk b)
            (\<lambda>x. x\<lparr>booking_status := cancelled\<rparr>) bs = bs"
      by (rule update_where_no_match)
    with True Cons.prems show ?thesis by (simp add: confirmed_seats_def update_where_def)
  next
    case False
    with Cons.prems have "b \<in> set bs" "booking_pk a \<noteq> booking_pk b" "distinct (map booking_pk bs)"
      by auto
    with Cons.IH Cons.prems show ?thesis
      by (simp add: confirmed_seats_def update_where_def)
  qed
qed

lemma set_update_where_cancel:
  "x \<in> set (update_where p (\<lambda>b. b\<lparr>booking_status := cancelled\<rparr>) bs) \<Longrightarrow>
   \<exists>y \<in> set bs. booking_schedule_id x = booking_schedule_id y \<and> passenger_count x = passenger_count y"
  by (auto simp: update_where_def split: if_splits)

subsection \<open>What one request leaves behind\<close>

lemma handle_Reserve:
  "handle db (Reserve booking user_id ref commit_ok) =
   (let n = int (length (passengers_of booking)) in
    case find (\<lambda>s. schedule_pk s = schedule_id booking) (train_schedules db) of
      None \<Rightarrow> db
    | Some schedule \<Rightarrow>
        if available_seats schedule < n then db
        else
          (case find (\<lambda>r. route_pk r = schedule_route_id schedule) (routes db) of
             None \<Rightarrow> db
           | Some route \<Rightarrow>
               (case plus_days (schedule_date schedule)
                       (max 1 ((distance_km route + 499) div 500) - 1) of
                  Inl e \<Rightarrow> db
                | Inr date_to \<Rightarrow>
                    if ref \<in> set (map booking_reference (bookings db)) \<or> \<not> commit_ok then db
                    else
                      db\<lparr>bookings := bookings db @
                            [\<lparr>booking_pk = next_pk (map booking_pk (bookings db)),
                              booking_user_id = user_id,
                              booking_schedule_id = schedule_id booking,
                              booking_reference = ref,
                              passenger_count = n,
                              total_amount = base_fare route * n,
                              booking_status = confirmed,
                              journey_date_from = schedule_date schedule,
                              journey_date_to = date_to\<rparr>],
                         passengers := add_passengers (passengers db)
                            (next_pk (map booking_pk (bookings db))) (passengers_of booking),
                         train_schedules :=
                            update_where (\<lambda>s. schedule_pk s = schedule_pk schedule)
                              (\<lambda>s. s\<lparr>available_seats := available_seats schedule - n\<rparr>)
                              (train_schedules db)\<rparr>)))"
  by (simp add: get_db_def api_create_booking_def create_booking_def commit_def rollback_def
        Let_def split: option.split sum.split exn.split)

lemma handle_Release:
  "handle db (Release bid user_id commit_ok) =
   (case find (\<lambda>b. booking_pk b = bid \<and> booking_user_id b = user_id) (bookings db) of
      None \<Rightarrow> db
    | Some booking \<Rightarrow>
        if booking_status booking \<noteq> confirmed then db
        else
          (case find (\<lambda>s. schedule_pk s = booking_schedule_id booking) (train_schedules db) of
             None \<Rightarrow> db
           | Some schedule \<Rightarrow>
               if \<not> commit_ok then db
               else
                 db\<lparr>bookings := update_where (\<lambda>b. booking_pk b = booking_pk booking)
                       (\<lambda>b. b\<lparr>booking_status := cancelled\<rparr>) (bookings db),
                    train_schedules := update_where (\<lambda>s. schedule_pk s = schedule_pk schedule)
                       (\<lambda>s. s\<lparr>available_seats :=
                           available_seats schedule + passenger_count booking\<rparr>)
                       (train_schedules db),
                    refund_requests := refund_requests db @
                       [\<lparr>refund_pk = next_pk (map refund_pk (refund_requests db)),
                         refund_booking_id = bid,
                         refund_user_id = user_id,
                         refund_amount = total_amount booking,
                         refund_status = PENDING\<rparr>]\<rparr>))"
  by (simp add: get_db_def api_cancel_booking_with_refund_def cancel_booking_with_refund_def
        commit_def Let_def split: option.split)

lemma handle_Reserve_cases:
  obtains
    (unchanged) "handle db (Reserve booking user_id ref commit_ok) = db"
  | (booked) schedule b where
      "find (\<lambda>s. schedule_pk s = schedule_id booking) (train_schedules db) = Some schedule"
      "int (length (passengers_of booking)) \<le> available_seats schedule"
      "booking_pk b = next_pk (map booking_pk (bookings db))"
      "booking_schedule_id b = schedule_id booking"
      "passenger_count b = int (length (passengers_of booking))"
      "booking_status b = confirmed"
      "bookings (handle db (Reserve booking user_id ref commit_ok)) = bookings db @ [b]"
      "train_schedules (handle db (Reserve booking user_id ref commit_ok)) =
         update_where (\<lambda>s. schedule_pk s = schedule_id booking)
           (\<lambda>s. s\<lparr>available_seats :=
               available_seats schedule - int (length (passengers_of booking))\<rparr>)
           (train_schedules db)"
proof (cases "find (\<lambda>s. schedule_pk s = schedule_id booking) (train_schedules db)")
  case None
  then have "handle db (Reserve booking user_id ref commit_ok) = db"
    by (simp add: handle_Reserve Let_def del: handle.simps)
  then show ?thesis by (rule unchanged)
next
  case (Some schedule)
  note f = this
  have pk: "schedule_pk schedule = schedule_id booking"
    using f by (rule find_Some_pk)
  show ?thesis
  proof (cases "find (\<lambda>r. route_pk r = schedule_route_id schedule) (routes db)")
    case None
    with f have "handle db (Reserve booking user_id ref commit_ok) = db"
      by (simp add: handle_Reserve Let_def del: handle.simps)
    then show ?thesis by (rule unchanged)
  next
    case (Some route)
    note r = this
    show ?thesis
    proof (cases "plus_days (schedule_date schedule)
                    (max 1 ((distance_km route + 499) div 500) - 1)")
      case (Inl e)
      with f r have "handle db (Reserve booking user_id ref commit_ok) = db"
        by (simp add: handle_Reserve Let_def del: handle.simps)
      then show ?thesis by (rule unchanged)
    next
      case (Inr date_to)
      note d = this
      show ?thesis
      proof (cases "available_seats schedule < int (length (passengers_of booking)) \<or>
                    ref \<in> set (map booking_reference (bookings db)) \<or> \<not> commit_ok")
        case True
        with f r d have "handle db (Reserve booking user_id ref commit_ok) = db"
          by (auto simp: handle_Reserve Let_def simp del: handle.simps)
        then show ?thesis by (rule unchanged)
      next
        case False
        with f r d pk show ?thesis
          by (intro booked [of schedule])
            (simp_all add: handle_Reserve Let_def del: handle.simps)
      qed
    qed
  qed
qed

lemma handle_Release_cases:
  obtains
    (unchanged) "handle db (Release bid user_id commit_ok) = db"
  | (released) booking schedule where
      "booking \<in> set (bookings db)"
      "booking_status booking = confirmed"
      "find (\<lambda>s. schedule_pk s = booking_schedule_id booking) (train_schedules db) = Some schedule"
      "bookings (handle db (Release bid user_id commit_ok)) =
         update_where (\<lambda>b. booking_pk b = booking_pk booking)
           (\<lambda>b. b\<lparr>booking_status := cancelled\<rparr>) (bookings db)"
      "train_schedules (handle db (Release bid user_id commit_ok)) =
         update_where (\<lambda>s. schedule_pk s = booking_schedule_id booking)
           (\<lambda>s. s\<lparr>available_seats := available_seats schedule + passenger_count booking\<rparr>)
           (train_schedules db)"
proof (cases "find (\<lambda>b. booking_pk b = bid \<and> booking_user_id b = user_id) (bookings db)")
  case None
  then have "handle db (Release bid user_id commit_ok) = db"
    by (simp add: handle_Release del: handle.simps)
  then show ?thesis by (rule unchanged)
next
  case (Some booking)
  note fb = this
  then have mem: "booking \<in> set (bookings db)"
    by (auto dest: find_booking_Some)
  show ?thesis
  proof (cases "find (\<lambda>s. schedule_pk s = booking_schedule_id booking) (train_schedules db)")
    case None
    with fb have "handle db (Release bid user_id commit_ok) = db"
      by (simp add: handle_Release del: handle.simps)
    then show ?thesis by (rule unchanged)
  next
    case (Some schedule)
    note f = this
    have pk: "schedule_pk schedule = booking_schedule_id booking"
      using f by (rule find_Some_pk)
    show ?thesis
    proof (cases "booking_status booking \<noteq> confirmed \<or> \<not> commit_ok")
      case True
      with fb f have "handle db (Release bid user_id commit_ok) = db"
        by (auto simp: handle_Release simp del: handle.simps)
      then show ?thesis by (rule unchanged)
    next
      case False
      with fb f pk mem show ?thesis
        by (intro released [of booking schedule]) (simp_all add: handle_Release del: handle.simps)
    qed
  qed
qed

subsection \<open>The invariants are kept\<close>

lemma seats_conserved_handle:
  assumes "seats_conserved cap sid db"
  shows "seats_conserved cap sid (handle db req)"
proof -
  from assms obtain s where
    d: "distinct (map booking_pk (bookings db))" and
    s: "find (\<lambda>s. schedule_pk s = sid) (train_schedules db) = Some s" and
    eq: "available_seats s + confirmed_seats (bookings db) sid = cap"
    by (auto simp: seats_conserved_def)
  show ?thesis
  proof (cases req)
    case (Reserve booking user_id ref commit_ok)
    show ?thesis
    proof (cases rule: handle_Reserve_cases [of db booking user_id ref commit_ok])
      case unchanged
      with assms Reserve show ?thesis by simp
    next
      case (booked schedule b)
      show ?thesis
      proof (cases "schedule_id booking = sid")
        case True
        with booked(1) s have "schedule = s" by simp
        with True d s eq booked(3-6) show ?thesis
          unfolding Reserve seats_conserved_def booked(7,8)
          by (simp add: next_pk_fresh_image find_schedule_update_where confirmed_seats_append)
      next
        case False
        with d s eq booked(3-6) show ?thesis
          unfolding Reserve seats_conserved_def booked(7,8)
          by (simp add: next_pk_fresh_image find_schedule_update_where confirmed_seats_append)
      qed
    qed
  next
    case (Release bid user_id commit_ok)
    show ?thesis
    proof (cases rule: handle_Release_cases [of db bid user_id commit_ok])
      case unchanged
      with assms Release show ?thesis by simp
    next
      case (released booking schedule)
      have sum: "confirmed_seats (update_where (\<lambda>x. booking_pk x = booking_pk booking)
            (\<lambda>x. x\<lparr>booking_status := cancelled\<rparr>) (bookings db)) sid =
          confirmed_seats (bookings db) sid -
           (if booking_schedule_id booking = sid then passenger_count booking else 0)"
        using d released(1,2) by (rule confirmed_seats_cancel)
      show ?thesis
      proof (cases "booking_schedule_id booking = sid")
        case True
        with released(3) s have "schedule = s" by simp
        with True d s eq sum show ?thesis
          unfolding Release seats_conserved_def released(4,5)
          by (simp add: map_pk_update_where find_schedule_update_where)
      next
        case False
        with d s eq sum show ?thesis
          unfolding Release seats_conserved_def released(4,5)
          by (simp add: map_pk_update_where find_schedule_update_where)
      qed
    qed
  qed
qed

lemma seats_nonneg_handle:
  assumes "seats_nonneg sid db"
  shows "seats_nonneg sid (handle db req)"
proof -
  from assms obtain s where
    nn: "\<forall>b \<in> set (bookings db). booking_schedule_id b = sid \<longrightarrow> 0 \<le> passenger_count b" and
    s: "find (\<lambda>s. schedule_pk s = sid) (train_schedules db) = Some s" and
    lo: "0 \<le> available_seats s"
    by (auto simp: seats_nonneg_def)
  show ?thesis
  proof (cases req)
    case (Reserve booking user_id ref commit_ok)
    show ?thesis
    proof (cases rule: handle_Reserve_cases [of db booking user_id ref commit_ok])
      case unchanged
      with assms Reserve show ?thesis by simp
    next
      case (booked schedule b)
      show ?thesis
      proof (cases "schedule_id booking = sid")
        case True
        with booked(1) s have "schedule = s" by simp
        with True nn s lo booked(2-6) show ?thesis
          unfolding Reserve seats_nonneg_def booked(7,8)
          by (simp add: find_schedule_update_where)
      next
        case False
        with nn s lo booked(2-6) show ?thesis
          unfolding Reserve seats_nonneg_def booked(7,8)
          by (simp add: find_schedule_update_where)
      qed
    qed
  next
    case (Release bid user_id commit_ok)
    show ?thesis
    proof (cases rule: handle_Release_cases [of db bid user_id commit_ok])
      case unchanged
      with assms Release show ?thesis by simp
    next
      case (released booking schedule)
      have nn': "\<forall>b \<in> set (update_where (\<lambda>b. booking_pk b = booking_pk booking)
                       (\<lambda>b. b\<lparr>booking_status := cancelled\<rparr>) (bookings db)).
                 booking_schedule_id b = sid \<longrightarrow> 0 \<le> passenger_count b"
        using nn by (auto dest!: set_update_where_cancel)
      show ?thesis
      proof (cases "booking_schedule_id booking = sid")
        case True
        with released(3) s have "schedule = s" by simp
        moreover from True nn released(1) have "0 \<le> passenger_count booking" by simp
        ultimately show ?thesis
          using True nn' s lo
          unfolding Release seats_nonneg_def released(4,5)
          by (simp add: find_schedule_update_where)
      next
        case False
        with nn' s lo show ?thesis
          unfolding Release seats_nonneg_def released(4,5)
          by (simp add: find_schedule_update_where)
      qed
    qed
  qed
qed

lemma seats_conserved_run:
  "seats_conserved cap sid db \<Longrightarrow> seats_conserved cap sid (run db reqs)"
  unfolding run_def
  by (induction reqs arbitrary: db) (simp_all add: seats_conserved_handle del: handle.simps)

lemma seats_nonneg_run:
  "seats_nonneg sid db \<Longrightarrow> seats_nonneg sid (run db reqs)"
  unfolding run_def
  by (induction reqs arbitrary: db) (simp_all add: seats_nonneg_handle del: handle.simps)

subsection \<open>Rows found again after an update\<close>

lemma find_map_preserved:
  "(\<And>x. p (g x) = p x) \<Longrightarrow> find p (map g xs) = map_option g (find p xs)"
  by (induction xs) auto

lemma find_update_where_preserved:
  "(\<And>x. p (f x) = p x) \<Longrightarrow>
   find p (update_where q f rows) = map_option (\<lambda>r. if q r then f r else r) (find p rows)"
  unfolding update_where_def by (rule find_map_preserved) simp

subsection \<open>The worked scenario, step by step\<close>

lemma scenario_trace:
  "map (\<lambda>k. map available_seats (train_schedules (run scenario_db (take k scenario_requests))))
     [0, 1, 2, 3, 4] = [[50], [47], [47], [50], [50]]"
  by (simp add: run_def scenario_requests_def scenario_db_def party_def traveller_def
      get_db_def api_create_booking_def create_booking_def api_cancel_booking_with_refund_def
      cancel_booking_with_refund_def commit_def rollback_def update_where_def next_pk_def plus_days_def timedelta_def date_add_def Let_def)

subsection \<open>New schedules start with every seat of the train free\<close>

lemma schedule_loop_starts_full:
  assumes "schedule_loop existing rid seats today added offsets = Inr added'"
    and "starts_full seats existing added"
  shows "starts_full seats existing added'"
  using assms
proof (induction existing rid seats today added offsets rule: schedule_loop.induct)
  case (1 existing rid seats today added)
  then show ?case by simp
next
  case (2 existing rid seats today added i rest)
  from "2.prems"(1) obtain day where day: "plus_days today (int i) = Inr day"
    by (cases "plus_days today (int i)") simp_all
  show ?case
  proof (cases "find (\<lambda>s. schedule_route_id s = rid \<and> schedule_date s = day) existing")
    case (Some existing_schedule)
    with 2 day show ?thesis by simp
  next
    case None
    note none = this
    show ?thesis
    proof (cases seats)
      case None
      with none day "2.prems" show ?thesis by simp
    next
      case (Some n)
      let ?row = "\<lparr>schedule_pk = next_pk (map schedule_pk (existing @ added)),
                    schedule_route_id = rid,
                    schedule_date = day,
                    available_seats = n\<rparr>"
      have "next_pk (map schedule_pk (existing @ added)) \<notin> schedule_pk ` set (existing @ added)"
        by (rule next_pk_fresh_image)
      with "2.prems"(2) Some have "starts_full seats existing (added @ [?row])"
        by (auto simp: starts_full_def)
      moreover from "2.prems"(1) none day Some
      have "schedule_loop existing rid seats today (added @ [?row]) rest = Inr added'"
        by simp
      ultimately show ?thesis
        using "2.IH"(1) [OF day none Some] by blast
    qed
  qed
qed

lemma create_schedules_for_route_starts_full:
  assumes "create_schedules_for_route sess rid today days_ahead commit_ok = (Inr (), sess')"
    and "find (\<lambda>r. route_pk r = rid) (routes (work sess)) = Some route"
    and "find (\<lambda>t. train_pk t = route_train_id route) (trains (work sess)) = Some train"
  shows "\<exists>added.
           train_schedules (stored sess') = train_schedules (work sess) @ added \<and>
           (\<forall>s \<in> set added.
              available_seats s = total_seats train \<and>
              schedule_pk s \<notin> schedule_pk ` set (train_schedules (work sess)))"
proof -
  from assms obtain added where
    l: "schedule_loop (train_schedules (work sess)) rid (Some (total_seats train)) today []
          [0..<days_ahead] = Inr added" and
    s: "train_schedules (stored sess') = train_schedules (work sess) @ added"
    by (auto simp: create_schedules_for_route_def commit_def Let_def
          split: sum.splits if_splits)
  have "starts_full (Some (total_seats train)) (train_schedules (work sess)) []"
    by (simp add: starts_full_def)
  with l have "starts_full (Some (total_seats train)) (train_schedules (work sess)) added"
    by (rule schedule_loop_starts_full)
  with s show ?thesis
    by (auto simp: starts_full_def)
qed

lemma create_schedules_scenario:
  "map (\<lambda>s. (schedule_pk s, schedule_date s, available_seats s))
     (train_schedules (stored (snd (create_schedules_for_route
        \<lparr>stored = scenario_db, work = scenario_db\<rparr> 1 738999 3 True)))) =
   [(1, 739000, 50), (2, 738999, 50), (3, 739001, 50)]"
  by (simp add: create_schedules_for_route_def scenario_db_def commit_def next_pk_def Let_def
      upt_rec plus_days_def timedelta_def date_add_def)

subsection \<open>When a reserve returns a booking\<close>

lemma create_booking_returns:
  assumes "create_booking sess booking user_id ref commit_ok = (Inr b, sess')"
  obtains schedule route date_to where
    "find (\<lambda>s. schedule_pk s = schedule_id booking) (train_schedules (work sess)) = Some schedule"
    "int (length (passengers_of booking)) \<le> available_seats schedule"
    "find (\<lambda>r. route_pk r = schedule_route_id schedule) (routes (work sess)) = Some route"
    "plus_days (schedule_date schedule) (max 1 ((distance_km route + 499) div 500) - 1) =
       Inr date_to"
    "passenger_count b = int (length (passengers_of booking))"
    "total_amount b = base_fare route * int (length (passengers_of booking))"
    "booking_status b = confirmed"
    "journey_date_to b = date_to"
    "bookings (stored sess') = bookings (work sess) @ [b]"
    "train_schedules (stored sess') =
       update_where (\<lambda>s. schedule_pk s = schedule_pk schedule)
         (\<lambda>s. s\<lparr>available_seats :=
                  available_seats schedule - int (length (passengers_of booking))\<rparr>)
         (train_schedules (work sess))"
proof (cases "find (\<lambda>s. schedule_pk s = schedule_id booking) (train_schedules (work sess))")
  case None
  with assms show ?thesis by (simp add: create_booking_def Let_def)
next
  case (Some schedule)
  note f = this
  show ?thesis
  proof (cases "find (\<lambda>r. route_pk r = schedule_route_id schedule) (routes (work sess))")
    case None
    with assms f show ?thesis by (simp add: create_booking_def Let_def split: if_splits)
  next
    case (Some route)
    note r = this
    show ?thesis
    proof (cases "plus_days (schedule_date schedule)
                    (max 1 ((distance_km route + 499) div 500) - 1)")
      case (Inl e)
      with assms f r show ?thesis by (simp add: create_booking_def Let_def split: if_splits)
    next
      case (Inr date_to)
      with assms f r show ?thesis
        by (intro that [of schedule route date_to])
          (auto simp: create_booking_def commit_def Let_def split: if_splits)
    qed
  qed
qed

section \<open>The seat counter\<close>

text \<open>
  C1 (capacity invariant). Take a schedule whose \<open>available_seats\<close> equals its total
  capacity, a non-negative number, and on which nothing is booked yet, in a database whose
  booking keys are unique. Whatever reserve and release requests are served, for any
  schedule and with any outcome of the store, after each of them the schedule is still
  there and \<open>0 \<le> available_seats \<le> total_capacity\<close>.
\<close>

theorem capacity_invariant:
  assumes "find (\<lambda>s. schedule_pk s = sid) (train_schedules db) = Some s"
    and "available_seats s = total_capacity"
    and "0 \<le> total_capacity"
    and "\<forall>b \<in> set (bookings db). booking_schedule_id b \<noteq> sid"
    and "distinct (map booking_pk (bookings db))"
  shows "\<forall>k \<le> length reqs.
           \<exists>s'. find (\<lambda>s. schedule_pk s = sid) (train_schedules (run db (take k reqs))) = Some s' \<and>
                0 \<le> available_seats s' \<and> available_seats s' \<le> total_capacity"
proof (intro allI impI)
  fix k
  let ?db = "run db (take k reqs)"
  from assms have "seats_conserved total_capacity sid db"
    by (simp add: seats_conserved_def confirmed_seats_fresh)
  then have c: "seats_conserved total_capacity sid ?db"
    by (rule seats_conserved_run)
  from assms have "seats_nonneg sid db"
    by (auto simp: seats_nonneg_def)
  then have n: "seats_nonneg sid ?db"
    by (rule seats_nonneg_run)
  from n have "0 \<le> confirmed_seats (bookings ?db) sid"
    by (simp add: seats_nonneg_def confirmed_seats_nonneg)
  with c n show "\<exists>s'. find (\<lambda>s. schedule_pk s = sid) (train_schedules ?db) = Some s' \<and>
                0 \<le> available_seats s' \<and> available_seats s' \<le> total_capacity"
    by (auto simp: seats_conserved_def seats_nonneg_def)
qed

theorem capacity_invariant_witness:
  "find (\<lambda>s. schedule_pk s = 1) (train_schedules scenario_db) =
     Some \<lparr>schedule_pk = 1, schedule_route_id = 1, schedule_date = 739000, available_seats = 50\<rparr> \<and>
   bookings scenario_db = [] \<and>
   length scenario_requests = 4 \<and>
   (\<exists>s'. find (\<lambda>s. schedule_pk s = 1)
           (train_schedules (run scenario_db (take 1 scenario_requests))) = Some s' \<and>
         0 \<le> available_seats s' \<and> available_seats s' \<le> 50) \<and>
   (\<exists>s'. find (\<lambda>s. schedule_pk s = 1)
           (train_schedules (run scenario_db (take 4 scenario_requests))) = Some s' \<and>
         0 \<le> available_seats s' \<and> available_seats s' \<le> 50)"
proof -
  have len: "length scenario_requests = 4"
    by (simp add: scenario_requests_def)
  have every: "\<forall>k \<le> length scenario_requests.
          \<exists>s'. find (\<lambda>s. schedule_pk s = 1)
                 (train_schedules (run scenario_db (take k scenario_requests))) = Some s' \<and>
               0 \<le> available_seats s' \<and> available_seats s' \<le> 50"
    using capacity_invariant [of 1 scenario_db
        "\<lparr>schedule_pk = 1, schedule_route_id = 1, schedule_date = 739000, available_seats = 50\<rparr>"
        50 scenario_requests]
    by (simp add: scenario_db_def)
  have first: "\<exists>s'. find (\<lambda>s. schedule_pk s = 1)
           (train_schedules (run scenario_db (take 1 scenario_requests))) = Some s' \<and>
         0 \<le> available_seats s' \<and> available_seats s' \<le> 50"
    using every [rule_format, of 1] by (simp add: len)
  have last: "\<exists>s'. find (\<lambda>s. schedule_pk s = 1)
           (train_schedules (run scenario_db (take 4 scenario_requests))) = Some s' \<and>
         0 \<le> available_seats s' \<and> available_seats s' \<le> 50"
    using every [rule_format, of 4] by (simp add: len)
  from first last len show ?thesis
    by (simp add: scenario_db_def)
qed

text \<open>
  C2 (conservation). From the same start, after any sequence of served reserve and
  release requests, \<open>available_seats\<close> plus the passenger counts of the confirmed
  bookings of the schedule is the total capacity.
\<close>

theorem conservation:
  assumes "find (\<lambda>s. schedule_pk s = sid) (train_schedules db) = Some s"
    and "available_seats s = total_capacity"
    and "\<forall>b \<in> set (bookings db). booking_schedule_id b \<noteq> sid"
    and "distinct (map booking_pk (bookings db))"
  shows "\<exists>s'. find (\<lambda>s. schedule_pk s = sid) (train_schedules (run db reqs)) = Some s' \<and>
              available_seats s' + confirmed_seats (bookings (run db reqs)) sid = total_capacity"
proof -
  from assms have "seats_conserved total_capacity sid db"
    by (simp add: seats_conserved_def confirmed_seats_fresh)
  then have "seats_conserved total_capacity sid (run db reqs)"
    by (rule seats_conserved_run)
  then show ?thesis
    by (simp add: seats_conserved_def)
qed

theorem conservation_witness:
  "find (\<lambda>s. schedule_pk s = 1) (train_schedules scenario_db) =
     Some \<lparr>schedule_pk = 1, schedule_route_id = 1, schedule_date = 739000, available_seats = 50\<rparr> \<and>
   bookings scenario_db = [] \<and>
   confirmed_seats (bookings (run scenario_db (take 2 scenario_requests))) 1 = 3 \<and>
   (\<exists>s'. find (\<lambda>s. schedule_pk s = 1)
           (train_schedules (run scenario_db (take 2 scenario_requests))) = Some s' \<and>
         available_seats s' +
           confirmed_seats (bookings (run scenario_db (take 2 scenario_requests))) 1 = 50)"
  using conservation [of 1 scenario_db
      "\<lparr>schedule_pk = 1, schedule_route_id = 1, schedule_date = 739000, available_seats = 50\<rparr>"
      50 "take 2 scenario_requests"]
  by (simp add: run_def scenario_requests_def scenario_db_def party_def traveller_def
      get_db_def api_create_booking_def create_booking_def commit_def rollback_def
      update_where_def next_pk_def plus_days_def timedelta_def date_add_def confirmed_seats_def Let_def)

section \<open>Reserve\<close>

text \<open>
  C3 (reserve success postcondition). Take a request of at least one passenger for an
  existing schedule that has at least as many seats free. Whenever \<open>create_booking\<close>
  returns a booking, for any drawn reference and any outcome of the store, its
  \<open>passenger_count\<close> is the number of passengers of the request and its status is
  \<open>confirmed\<close>, the booking is stored, and \<open>available_seats\<close> of the schedule has gone
  down by exactly that number. And it does return a booking whenever the schedule has
  its route, the journey ends on a representable date, the drawn reference is not in use
  and the commit goes through.
\<close>

theorem reserve_success_postcondition:
  assumes "find (\<lambda>s. schedule_pk s = schedule_id booking) (train_schedules (work sess)) =
             Some schedule"
    and "int (length (passengers_of booking)) \<le> available_seats schedule"
    and "1 \<le> length (passengers_of booking)"
  shows "(\<forall>ref commit_ok b sess'.
            create_booking sess booking user_id ref commit_ok = (Inr b, sess') \<longrightarrow>
            passenger_count b = int (length (passengers_of booking)) \<and>
            booking_status b = confirmed \<and>
            b \<in> set (bookings (stored sess')) \<and>
            (\<exists>schedule'.
               find (\<lambda>s. schedule_pk s = schedule_id booking) (train_schedules (stored sess')) =
                 Some schedule' \<and>
               available_seats schedule' =
                 available_seats schedule - int (length (passengers_of booking)))) \<and>
         (\<forall>route date_to ref.
            find (\<lambda>r. route_pk r = schedule_route_id schedule) (routes (work sess)) = Some route \<longrightarrow>
            plus_days (schedule_date schedule) (max 1 ((distance_km route + 499) div 500) - 1) =
              Inr date_to \<longrightarrow>
            ref \<notin> set (map booking_reference (bookings (work sess))) \<longrightarrow>
            (\<exists>b sess'. create_booking sess booking user_id ref True = (Inr b, sess')))"
proof -
  have pk: "schedule_pk schedule = schedule_id booking"
    using assms(1) by (rule find_Some_pk)
  have post: "passenger_count b = int (length (passengers_of booking)) \<and>
        booking_status b = confirmed \<and>
        b \<in> set (bookings (stored sess')) \<and>
        (\<exists>schedule'.
           find (\<lambda>s. schedule_pk s = schedule_id booking) (train_schedules (stored sess')) =
             Some schedule' \<and>
           available_seats schedule' =
             available_seats schedule - int (length (passengers_of booking)))"
    if ret: "create_booking sess booking user_id ref commit_ok = (Inr b, sess')"
    for ref commit_ok b sess'
  proof -
  from ret obtain schedule0 where
    f0: "find (\<lambda>s. schedule_pk s = schedule_id booking) (train_schedules (work sess)) =
           Some schedule0" and
    c: "passenger_count b = int (length (passengers_of booking))" and
    st: "booking_status b = confirmed" and
    bs: "bookings (stored sess') = bookings (work sess) @ [b]" and
    ts: "train_schedules (stored sess') =
           update_where (\<lambda>s. schedule_pk s = schedule_pk schedule0)
             (\<lambda>s. s\<lparr>available_seats :=
                      available_seats schedule0 - int (length (passengers_of booking))\<rparr>)
             (train_schedules (work sess))"
    by (rule create_booking_returns)
  from f0 assms(1) have [simp]: "schedule0 = schedule" by simp
  from c st bs ts assms(1) pk show ?thesis
    by (simp add: find_schedule_update_where)
  qed
  have returns: "\<exists>b sess'. create_booking sess booking user_id ref True = (Inr b, sess')"
    if "find (\<lambda>r. route_pk r = schedule_route_id schedule) (routes (work sess)) = Some route"
      and "plus_days (schedule_date schedule)
             (max 1 ((distance_km route + 499) div 500) - 1) = Inr date_to"
      and "ref \<notin> set (map booking_reference (bookings (work sess)))"
    for route date_to ref
    using that assms by (simp add: create_booking_def commit_def Let_def)
  show ?thesis
  proof (rule conjI)
    show "\<forall>ref commit_ok b sess'.
            create_booking sess booking user_id ref commit_ok = (Inr b, sess') \<longrightarrow>
            passenger_count b = int (length (passengers_of booking)) \<and>
            booking_status b = confirmed \<and>
            b \<in> set (bookings (stored sess')) \<and>
            (\<exists>schedule'.
               find (\<lambda>s. schedule_pk s = schedule_id booking) (train_schedules (stored sess')) =
                 Some schedule' \<and>
               available_seats schedule' =
                 available_seats schedule - int (length (passengers_of booking)))"
      by (intro allI impI) (rule post)
    show "\<forall>route date_to ref.
            find (\<lambda>r. route_pk r = schedule_route_id schedule) (routes (work sess)) = Some route \<longrightarrow>
            plus_days (schedule_date schedule) (max 1 ((distance_km route + 499) div 500) - 1) =
              Inr date_to \<longrightarrow>
            ref \<notin> set (map booking_reference (bookings (work sess))) \<longrightarrow>
            (\<exists>b sess'. create_booking sess booking user_id ref True = (Inr b, sess'))"
      by (intro allI impI) (rule returns)
  qed
qed

theorem reserve_success_postcondition_witness:
  "int (length (passengers_of (party 3))) \<le> 50 \<and>
   1 \<le> length (passengers_of (party 3)) \<and>
   plus_days 739000 (max 1 ((1200 + 499) div 500) - 1) = Inr 739002 \<and>
   (\<exists>b sess'.
      create_booking \<lparr>stored = scenario_db, work = scenario_db\<rparr> (party 3) 7 ''AB12CD34'' True =
        (Inr b, sess') \<and>
      passenger_count b = 3 \<and>
      booking_status b = confirmed \<and>
      b \<in> set (bookings (stored sess')) \<and>
      (\<exists>schedule'.
         find (\<lambda>s. schedule_pk s = 1) (train_schedules (stored sess')) = Some schedule' \<and>
         available_seats schedule' = 47))"
proof -
  note post =
    reserve_success_postcondition
      [where booking = "party 3" and sess = "\<lparr>stored = scenario_db, work = scenario_db\<rparr>"
         and schedule = "\<lparr>schedule_pk = 1, schedule_route_id = 1, schedule_date = 739000,
                           available_seats = 50\<rparr>"
         and user_id = 7]
  have start:
    "find (\<lambda>s. schedule_pk s = schedule_id (party 3))
       (train_schedules (work \<lparr>stored = scenario_db, work = scenario_db\<rparr>)) =
     Some \<lparr>schedule_pk = 1, schedule_route_id = 1, schedule_date = 739000, available_seats = 50\<rparr>"
    "int (length (passengers_of (party 3))) \<le>
       available_seats \<lparr>schedule_pk = 1, schedule_route_id = 1, schedule_date = 739000,
                        available_seats = 50\<rparr>"
    "1 \<le> length (passengers_of (party 3))"
    by (simp_all add: scenario_db_def party_def)
  have day: "plus_days 739000 (max 1 ((1200 + 499) div 500) - 1) = Inr 739002"
    by (simp add: plus_days_def timedelta_def date_add_def)
  from post [OF start, THEN conjunct2, rule_format,
      of "\<lparr>route_pk = 1, route_train_id = 1, distance_km = 1200, base_fare = 45000\<rparr>"
        739002 "''AB12CD34''"]
  obtain b sess' where
    ret: "create_booking \<lparr>stored = scenario_db, work = scenario_db\<rparr> (party 3) 7
            ''AB12CD34'' True = (Inr b, sess')"
    using day by (auto simp: scenario_db_def)
  from post [OF start, THEN conjunct1, rule_format, OF ret] ret start(2,3) day
  show ?thesis
    by (simp add: party_def)
qed

text \<open>
  C10 (zero-seat reservation), as stated, fails: on a schedule with 50 free seats whose
  route is 1456530001 km long, \<open>create_booking\<close> with an empty passenger list raises
  \<open>OverflowError\<close> when it computes the end of the journey; the handler answers 500 and
  nothing is stored.
\<close>

theorem zero_seat_reservation_counterexample:
  "map schedule_pk (train_schedules far_db) = [1] \<and>
   map available_seats (train_schedules far_db) = [50] \<and>
   passengers_of (party 0) = [] \<and>
   create_booking \<lparr>stored = far_db, work = far_db\<rparr> (party 0) 7 ''AB12CD34'' True =
     (Inl (OverflowError ''date value out of range''), \<lparr>stored = far_db, work = far_db\<rparr>) \<and>
   api_create_booking \<lparr>stored = far_db, work = far_db\<rparr> (party 0) 7 ''AB12CD34'' True =
     (Inl (HTTPException 500 ''Booking failed. Please try again.''),
      \<lparr>stored = far_db, work = far_db\<rparr>)"
  by (simp add: api_create_booking_def create_booking_def rollback_def far_db_def
      scenario_db_def party_def plus_days_def timedelta_def date_add_def Let_def)

text \<open>
  C10 (zero-seat reservation), amended. \<open>create_booking\<close> with an empty passenger list,
  on an existing schedule (with its route) whose \<open>available_seats\<close> is not negative and
  whose journey ends on a representable date, succeeds when the store takes the booking:
  it stores a confirmed booking with \<open>passenger_count = 0\<close> and \<open>total_amount = 0\<close>, adds
  no passenger and leaves the schedule row as it was. Nothing at this boundary asks for
  at least one seat.
\<close>

theorem zero_seat_reservation:
  assumes "find (\<lambda>s. schedule_pk s = schedule_id booking) (train_schedules (work sess)) =
             Some schedule"
    and "0 \<le> available_seats schedule"
    and "passengers_of booking = []"
    and "find (\<lambda>r. route_pk r = schedule_route_id schedule) (routes (work sess)) = Some route"
    and "plus_days (schedule_date schedule) (max 1 ((distance_km route + 499) div 500) - 1) =
           Inr date_to"
    and "ref \<notin> set (map booking_reference (bookings (work sess)))"
  shows "\<exists>b sess'.
           create_booking sess booking user_id ref True = (Inr b, sess') \<and>
           passenger_count b = 0 \<and> total_amount b = 0 \<and> booking_status b = confirmed \<and>
           journey_date_to b = date_to \<and>
           bookings (stored sess') = bookings (work sess) @ [b] \<and>
           passengers (stored sess') = passengers (work sess) \<and>
           find (\<lambda>s. schedule_pk s = schedule_id booking) (train_schedules (stored sess')) =
             Some schedule"
proof -
  have pk: "schedule_pk schedule = schedule_id booking"
    using assms(1) by (rule find_Some_pk)
  with assms show ?thesis
    by (simp add: create_booking_def commit_def Let_def find_schedule_update_where)
qed

theorem zero_seat_reservation_witness:
  "passengers_of (party 0) = [] \<and>
   plus_days 739000 (max 1 ((1200 + 499) div 500) - 1) = Inr 739002 \<and>
   (\<exists>b sess'.
      create_booking \<lparr>stored = scenario_db, work = scenario_db\<rparr> (party 0) 7 ''AB12CD34'' True =
        (Inr b, sess') \<and>
      passenger_count b = 0 \<and> total_amount b = 0 \<and> booking_status b = confirmed \<and>
      journey_date_to b = 739002 \<and>
      bookings (stored sess') = [b] \<and>
      passengers (stored sess') = [] \<and>
      map available_seats (train_schedules (stored sess')) = [50])"
  using zero_seat_reservation
    [where booking = "party 0" and sess = "\<lparr>stored = scenario_db, work = scenario_db\<rparr>"
       and schedule = "\<lparr>schedule_pk = 1, schedule_route_id = 1, schedule_date = 739000,
                         available_seats = 50\<rparr>"
       and route = "\<lparr>route_pk = 1, route_train_id = 1, distance_km = 1200, base_fare = 45000\<rparr>"
       and date_to = 739002 and ref = "''AB12CD34''" and user_id = 7]
  by (simp add: scenario_db_def party_def create_booking_def commit_def update_where_def
      plus_days_def timedelta_def date_add_def Let_def)

text \<open>
  C7 (atomicity under storage failure). When the availability check has passed and the
  store then refuses the booking (the commit fails, or the flush does on a reference
  already in use), the handler answers 500 and leaves the session rolled back: what is
  stored is what was stored before, and so is what the session sees. No booking exists
  and \<open>available_seats\<close> is unchanged.
\<close>

theorem reserve_atomic_on_storage_failure:
  assumes "find (\<lambda>s. schedule_pk s = schedule_id booking) (train_schedules (work sess)) =
             Some schedule"
    and "int (length (passengers_of booking)) \<le> available_seats schedule"
    and "\<not> commit_ok \<or> ref \<in> set (map booking_reference (bookings (work sess)))"
  shows "api_create_booking sess booking user_id ref commit_ok =
           (Inl (HTTPException 500 ''Booking failed. Please try again.''),
            \<lparr>stored = stored sess, work = stored sess\<rparr>)"
proof (cases "find (\<lambda>r. route_pk r = schedule_route_id schedule) (routes (work sess))")
  case None
  with assms(1,2) show ?thesis
    by (simp add: api_create_booking_def create_booking_def rollback_def Let_def)
next
  case (Some route)
  note r = this
  show ?thesis
  proof (cases "plus_days (schedule_date schedule)
                  (max 1 ((distance_km route + 499) div 500) - 1)")
    case (Inl e)
    with assms(1,2) r show ?thesis
      by (cases e) (simp_all add: api_create_booking_def create_booking_def rollback_def
          plus_days_def timedelta_def date_add_def Let_def split: if_splits)
  next
    case (Inr date_to)
    with assms r show ?thesis
      by (auto simp: api_create_booking_def create_booking_def commit_def rollback_def Let_def)
  qed
qed

theorem reserve_atomic_on_storage_failure_witness:
  "int (length (passengers_of (party 3))) \<le> 50 \<and>
   api_create_booking \<lparr>stored = scenario_db, work = scenario_db\<rparr> (party 3) 7 ''AB12CD34'' False =
     (Inl (HTTPException 500 ''Booking failed. Please try again.''),
      \<lparr>stored = scenario_db, work = scenario_db\<rparr>) \<and>
   get_db scenario_db (\<lambda>s. api_create_booking s (party 3) 7 ''AB12CD34'' False) =
     (Inl (HTTPException 500 ''Booking failed. Please try again.''), scenario_db)"
  using reserve_atomic_on_storage_failure
    [where booking = "party 3" and sess = "\<lparr>stored = scenario_db, work = scenario_db\<rparr>"
       and schedule = "\<lparr>schedule_pk = 1, schedule_route_id = 1, schedule_date = 739000,
                         available_seats = 50\<rparr>"
       and ref = "''AB12CD34''" and user_id = 7 and commit_ok = False]
  by (simp add: scenario_db_def party_def get_db_def)

text \<open>
  The guards of the locked reserve path tell the two failures apart and report the
  counts: an unknown schedule raises \<open>NotFoundError\<close>, too few seats raise
  \<open>InsufficientSeatsError\<close> with the seats available and the seats requested, and in
  both cases the transaction is rolled back.
\<close>

lemma seat_lock_guard_not_found:
  assumes "find (\<lambda>s. schedule_pk s = schedule_id booking_data) (train_schedules (work sess)) = None"
  shows "create_booking_with_seat_lock_guard sess booking_data =
           (Inl (NotFoundError ''TrainSchedule'' (schedule_id booking_data)), rollback sess)"
  using assms by (simp add: create_booking_with_seat_lock_guard_def)

lemma seat_lock_guard_insufficient:
  assumes "find (\<lambda>s. schedule_pk s = schedule_id booking_data) (train_schedules (work sess)) =
             Some schedule"
    and "available_seats schedule < int (length (passengers_of booking_data))"
  shows "create_booking_with_seat_lock_guard sess booking_data =
           (Inl (InsufficientSeatsError (available_seats schedule)
                   (int (length (passengers_of booking_data)))),
            rollback sess)"
  using assms by (simp add: create_booking_with_seat_lock_guard_def)

lemma seat_lock_guard_scenario:
  "map_sum detail id (fst (create_booking_with_seat_lock_guard
       \<lparr>stored = scenario_db, work = scenario_db\<rparr> (party 51))) =
     Inl ''Insufficient seats. Available: 50, Requested: 51'' \<and>
   map_sum detail id (fst (create_booking_with_seat_lock_guard
       \<lparr>stored = scenario_db, work = scenario_db\<rparr>
       \<lparr>schedule_id = 99, passengers_of = [traveller]\<rparr>)) =
     Inl ''TrainSchedule not found with identifier: 99''"
  by (simp add: create_booking_with_seat_lock_guard_def scenario_db_def party_def str_def
      digits.simps)

text \<open>
  Without a mutation: \<open>BookingService.create_booking\<close> raises its \<open>ValueError\<close> before
  it changes anything, whether the schedule is unknown or too full.
\<close>

lemma create_booking_refused_unchanged:
  assumes "find (\<lambda>s. schedule_pk s = schedule_id booking) (train_schedules (work sess)) = None \<or>
           (\<exists>schedule.
              find (\<lambda>s. schedule_pk s = schedule_id booking) (train_schedules (work sess)) =
                Some schedule \<and>
              available_seats schedule < int (length (passengers_of booking)))"
  shows "create_booking sess booking user_id ref commit_ok =
           (Inl (ValueError ''Insufficient seats available''), sess)"
  using assms by (auto simp: create_booking_def Let_def)

text \<open>
  C4 (reserve failure on insufficient capacity). \<open>BookingService.create_booking\<close>, the
  path the handler calls, refuses a request for 51 seats and a request for 60 seats on a
  schedule with 50 free seats with one and the same
  \<open>ValueError(''Insufficient seats available'')\<close>, answered as a 400 with that text:
  the error carries neither the seats available nor the seats requested.
\<close>

theorem create_booking_error_without_counts:
  "fst (create_booking \<lparr>stored = scenario_db, work = scenario_db\<rparr> (party 51) 7 ''AB12CD34'' True) =
     Inl (ValueError ''Insufficient seats available'') \<and>
   fst (create_booking \<lparr>stored = scenario_db, work = scenario_db\<rparr> (party 60) 7 ''AB12CD34'' True) =
     Inl (ValueError ''Insufficient seats available'') \<and>
   fst (api_create_booking \<lparr>stored = scenario_db, work = scenario_db\<rparr> (party 51) 7
          ''AB12CD34'' True) =
     Inl (HTTPException 400 ''Insufficient seats available'')"
  by (simp add: api_create_booking_def create_booking_def scenario_db_def party_def Let_def)

text \<open>
  C5 (distinct not-found error). \<open>BookingService.create_booking\<close> answers a request for
  schedule 99, which does not exist, exactly as it answers a request for too many seats
  on schedule 1: the same exception and the same session, and a 400 with the text
  ``Insufficient seats available''. The caller cannot tell the two apart.
\<close>

theorem create_booking_unknown_schedule_same_error:
  "find (\<lambda>s. schedule_pk s = 99) (train_schedules scenario_db) = None \<and>
   create_booking \<lparr>stored = scenario_db, work = scenario_db\<rparr>
       \<lparr>schedule_id = 99, passengers_of = [traveller]\<rparr> 7 ''AB12CD34'' True =
     create_booking \<lparr>stored = scenario_db, work = scenario_db\<rparr> (party 51) 7 ''AB12CD34'' True \<and>
   fst (api_create_booking \<lparr>stored = scenario_db, work = scenario_db\<rparr>
       \<lparr>schedule_id = 99, passengers_of = [traveller]\<rparr> 7 ''AB12CD34'' True) =
     Inl (HTTPException 400 ''Insufficient seats available'')"
  by (simp add: api_create_booking_def create_booking_def scenario_db_def party_def Let_def)

section \<open>Release\<close>

text \<open>
  C6 (idempotent-safe cancellation). For a confirmed booking of the caller on an existing
  schedule, the first \<open>cancel_booking_with_refund\<close> succeeds when the commit goes through
  and adds the booking's \<open>passenger_count\<close> to \<open>available_seats\<close>; the second call on
  the same booking id, whatever the store would do, raises
  \<open>ValueError(''Only confirmed bookings can be cancelled'')\<close> and returns the session
  as it found it. The seats are given back exactly once.
\<close>

theorem cancel_twice:
  assumes "find (\<lambda>b. booking_pk b = bid \<and> booking_user_id b = user_id) (bookings (work sess)) =
             Some booking"
    and "booking_status booking = confirmed"
    and "find (\<lambda>s. schedule_pk s = booking_schedule_id booking) (train_schedules (work sess)) =
           Some schedule"
  shows "\<exists>sess1.
           cancel_booking_with_refund sess bid user_id True = (Inr (total_amount booking), sess1) \<and>
           find (\<lambda>s. schedule_pk s = booking_schedule_id booking) (train_schedules (stored sess1)) =
             Some (schedule\<lparr>available_seats :=
                              available_seats schedule + passenger_count booking\<rparr>) \<and>
           (\<forall>commit_ok.
              cancel_booking_with_refund sess1 bid user_id commit_ok =
                (Inl (ValueError ''Only confirmed bookings can be cancelled''), sess1))"
proof -
  have pk: "schedule_pk schedule = booking_schedule_id booking"
    using assms(3) by (rule find_Some_pk)
  have bpk: "booking_pk booking = bid"
    using assms(1) by (auto dest: find_booking_Some)
  have fb: "find (\<lambda>b. booking_pk b = bid \<and> booking_user_id b = user_id)
          (update_where (\<lambda>b. booking_pk b = bid) (\<lambda>b. b\<lparr>booking_status := cancelled\<rparr>)
             (bookings (work sess))) = Some (booking\<lparr>booking_status := cancelled\<rparr>)"
    using assms(1) bpk by (simp add: find_update_where_preserved)
  from assms pk bpk fb show ?thesis
    by (simp add: cancel_booking_with_refund_def commit_def Let_def find_schedule_update_where)
qed

theorem cancel_twice_witness:
  "map_sum id booking_status (fst booked) = Inr confirmed \<and>
   map available_seats (train_schedules (work (snd booked))) = [47] \<and>
   (\<exists>sess1.
      cancel_booking_with_refund (snd booked) 1 7 True = (Inr (45000 * 3), sess1) \<and>
      map available_seats (train_schedules (stored sess1)) = [50] \<and>
      (\<forall>commit_ok.
         cancel_booking_with_refund sess1 1 7 commit_ok =
           (Inl (ValueError ''Only confirmed bookings can be cancelled''), sess1)))"
  using cancel_twice
    [where sess = "snd booked" and bid = 1 and user_id = 7 and booking = "projr (fst booked)"
       and schedule = "\<lparr>schedule_pk = 1, schedule_route_id = 1, schedule_date = 739000,
                         available_seats = 47\<rparr>"]
  by (simp add: booked_def create_booking_def cancel_booking_with_refund_def scenario_db_def
      party_def traveller_def commit_def update_where_def next_pk_def plus_days_def timedelta_def date_add_def Let_def)

section \<open>Fare and payment\<close>

lemma create_booking_total:
  assumes "create_booking sess booking user_id ref commit_ok = (Inr b, sess1)"
  shows "\<exists>schedule route.
           find (\<lambda>s. schedule_pk s = schedule_id booking) (train_schedules (work sess)) =
             Some schedule \<and>
           find (\<lambda>r. route_pk r = schedule_route_id schedule) (routes (work sess)) = Some route \<and>
           total_amount b = base_fare route * int (length (passengers_of booking))"
  using assms by (rule create_booking_returns) blast

lemma charge_balance:
  assumes "charge db payment_data user_id booking = Inr db1"
  shows "instrument_balance db1 payment_data user_id =
         map_option (\<lambda>bal. bal - total_amount booking)
           (instrument_balance db payment_data user_id)"
proof (cases "chosen_method payment_data")
  case WALLET
  with assms show ?thesis
    by (auto simp: charge_def instrument_balance_def find_update_where_preserved
          split: option.splits if_splits)
next
  case CREDIT_CARD
  with assms show ?thesis
    by (auto simp: charge_def instrument_balance_def find_update_where_preserved
          split: option.splits if_splits)
next
  case UPI
  with assms show ?thesis
    by (auto simp: charge_def instrument_balance_def find_update_where_preserved
          split: option.splits if_splits)
next
  case DEBIT_CARD
  with assms show ?thesis
    by (simp add: charge_def instrument_balance_def)
qed

lemma instrument_balance_payments:
  "instrument_balance (db\<lparr>payments := ps\<rparr>) payment_data user_id =
   instrument_balance db payment_data user_id"
  by (simp add: instrument_balance_def split: PaymentMethod.split)

lemma process_payment_success:
  assumes "process_payment sess payment_data user_id txn commit_ok = (Inr p, sess')"
  shows "\<exists>booking db1.
           find (\<lambda>b. booking_pk b = booking_id payment_data \<and> booking_user_id b = user_id)
             (bookings (work sess)) = Some booking \<and>
           charge (work sess) payment_data user_id booking = Inr db1 \<and>
           payment_amount p = total_amount booking \<and>
           stored sess' = db1\<lparr>payments := payments db1 @ [p]\<rparr>"
  using assms
  by (auto simp: process_payment_def commit_def Let_def split: option.splits sum.splits if_splits)

text \<open>
  C8 (fare calculation). The booking a successful \<open>create_booking\<close> returns has
  \<open>total_amount\<close> equal to the base fare of the schedule's route, as the call found it,
  times the number of passengers. In any later state that still holds this booking,
  whatever has become of the route and its fare, a successful \<open>process_payment\<close> records
  a payment of exactly that \<open>total_amount\<close> and debits the chosen wallet, card or UPI id
  by exactly that amount (\<open>DEBIT_CARD\<close> has no account to debit).
\<close>

theorem fare_fixed_at_reserve:
  assumes "create_booking sess booking user_id ref commit_ok = (Inr b, sess1)"
    and "find (\<lambda>x. booking_pk x = booking_id payment_data \<and> booking_user_id x = user_id)
           (bookings (work sess2)) = Some b"
    and "process_payment sess2 payment_data user_id txn commit_ok2 = (Inr p, sess3)"
  shows "(\<exists>schedule route.
            find (\<lambda>s. schedule_pk s = schedule_id booking) (train_schedules (work sess)) =
              Some schedule \<and>
            find (\<lambda>r. route_pk r = schedule_route_id schedule) (routes (work sess)) = Some route \<and>
            total_amount b = base_fare route * int (length (passengers_of booking))) \<and>
         payment_amount p = total_amount b \<and>
         instrument_balance (stored sess3) payment_data user_id =
           map_option (\<lambda>bal. bal - total_amount b)
             (instrument_balance (work sess2) payment_data user_id)"
proof -
  from assms(3) obtain booking' db1 where
    f: "find (\<lambda>b. booking_pk b = booking_id payment_data \<and> booking_user_id b = user_id)
             (bookings (work sess2)) = Some booking'" and
    c: "charge (work sess2) payment_data user_id booking' = Inr db1" and
    a: "payment_amount p = total_amount booking'" and
    s: "stored sess3 = db1\<lparr>payments := payments db1 @ [p]\<rparr>"
    using process_payment_success by blast
  from f assms(2) have [simp]: "booking' = b" by simp
  from c have "instrument_balance db1 payment_data user_id =
         map_option (\<lambda>bal. bal - total_amount b)
           (instrument_balance (work sess2) payment_data user_id)"
    using charge_balance by simp
  with a s create_booking_total [OF assms(1)] show ?thesis
    by (simp add: instrument_balance_payments)
qed

theorem fare_fixed_at_reserve_witness:
  "map_sum id total_amount (fst booked) = Inr (45000 * 3) \<and>
   map_option base_fare (find (\<lambda>r. route_pk r = 1) (routes (work (snd repriced)))) = Some 60000 \<and>
   map_sum id payment_amount (fst paid) = Inr (45000 * 3) \<and>
   instrument_balance (stored (snd paid)) wallet_payment 7 = Some (500000 - 45000 * 3)"
  using fare_fixed_at_reserve [of "\<lparr>stored = scenario_db, work = scenario_db\<rparr>" "party 3" 7
      "''AB12CD34''" True "projr (fst booked)" "snd booked" wallet_payment "snd repriced"
      "''c0ffee''" True "projr (fst paid)" "snd paid"]
  by (simp add: paid_def repriced_def booked_def wallet_payment_def process_payment_def
      charge_def update_route_def create_booking_def scenario_db_def party_def traveller_def
      commit_def update_where_def next_pk_def plus_days_def timedelta_def date_add_def Let_def debit_transaction_def
      instrument_balance_def)

end
